theory Spec2Isabelle
  imports Main "HOL-Library.Sublist"
begin

section \<open>The RAG notebook \<^verbatim>\<open>langchain/jupyter/LCEL/rag.ipynb\<close>\<close>

text \<open>
  The notebook wires library components together: a web loader, a text splitter, a vector
  store, a retriever, a prompt template and a chat model. The code the notebook itself
  contains is the function \<^verbatim>\<open>format_docs\<close>, the prompt text \<^verbatim>\<open>template\<close>, the fixed arguments
  of the library calls and the two LCEL chains. Those are embedded here. Every library
  call reaches a service outside the program, so it is a parameter of the model: a field of
  the record \<open>collaborators\<close>, acting on an outside world of type \<open>'w\<close> and either raising an
  error or returning a value.
\<close>

subsection \<open>Documents\<close>

text \<open>
  A LangChain \<^verbatim>\<open>Document\<close> has a text and a metadata dictionary; the notebook prints
  \<^verbatim>\<open>{'source': 'https://...', 'start_index': 8}\<close> for the first chunk.
\<close>

datatype meta_value = MStr string | MInt int

record document =
  page_content :: string
  metadata :: "(string \<times> meta_value) list"

subsection \<open>Errors and effects\<close>

text \<open>
  An exception is a value. The first three constructors are the failures of the outside
  services; \<open>KeyError\<close> and \<open>ValueError\<close> are what Python's string formatting raises, and
  \<open>IndexError\<close> what reading the first element of an empty list raises.
\<close>

datatype error =
    NetworkError string
  | MissingCredential string
  | MalformedResponse string
  | KeyError string
  | ValueError string
  | IndexError string

type_synonym ('w, 'a) run = "'w \<Rightarrow> (error + 'a) \<times> 'w"

definition succeed :: "'a \<Rightarrow> ('w, 'a) run" where
  "succeed a w = (Inr a, w)"

definition raise :: "error \<Rightarrow> ('w, 'a) run" where
  "raise e w = (Inl e, w)"

text \<open>
  Sequencing of two statements with no \<^verbatim>\<open>try\<close> around them (the notebook has none): when the
  first raises, the second does not run.
\<close>

definition and_then :: "('w, 'a) run \<Rightarrow> ('a \<Rightarrow> ('w, 'b) run) \<Rightarrow> ('w, 'b) run" where
  "and_then m f w = (case m w of (Inl e, w') \<Rightarrow> (Inl e, w') | (Inr a, w') \<Rightarrow> f a w')"


subsection \<open>The library calls\<close>

text \<open>
  \<^item> \<open>loader_load web_paths classes\<close>: \<^verbatim>\<open>WebBaseLoader(web_paths=..., bs_kwargs=...).load()\<close>
  \<^item> \<open>split_documents chunk_size chunk_overlap add_start_index docs\<close>:
    \<^verbatim>\<open>RecursiveCharacterTextSplitter(...).split_documents(docs)\<close>
  \<^item> \<open>from_documents documents embedding_model\<close>:
    \<^verbatim>\<open>Chroma.from_documents(documents=..., embedding=DashScopeEmbeddings(model=...))\<close>
  \<^item> \<open>retrieve vector_store search_type k query\<close>: what \<^verbatim>\<open>retriever.invoke(query)\<close> asks of the
    vector store
  \<^item> \<open>hub_pull name\<close>: \<^verbatim>\<open>hub.pull(name)\<close>, giving the template text of its one human message
  \<^item> \<open>chat_init model\<close>: the constructor \<^verbatim>\<open>ChatTongyi(model=...)\<close>, which looks for the credential
  \<^item> \<open>chat_model model text\<close>: the chat model invoked on a prompt whose one human message
    has the content \<open>text\<close>, giving the content of the reply
  The loader, the splitter and the embeddings are constructed in the statement that calls
  them, so their constructors are part of that call. The chat model is constructed in a cell
  of its own, several cells before its first use, so its constructor is a call of its own.
\<close>

record ('w, 'vs) collaborators =
  loader_load :: "string list \<Rightarrow> string list \<Rightarrow> ('w, document list) run"
  split_documents :: "nat \<Rightarrow> nat \<Rightarrow> bool \<Rightarrow> document list \<Rightarrow> ('w, document list) run"
  from_documents :: "document list \<Rightarrow> string \<Rightarrow> ('w, 'vs) run"
  retrieve :: "'vs \<Rightarrow> string \<Rightarrow> nat \<Rightarrow> string \<Rightarrow> ('w, document list) run"
  hub_pull :: "string \<Rightarrow> ('w, string) run"
  chat_init :: "string \<Rightarrow> ('w, unit) run"
  chat_model :: "string \<Rightarrow> string \<Rightarrow> ('w, string) run"

subsection \<open>Retriever\<close>

text \<open>
  \<^verbatim>\<open>retriever = vector_store.as_retriever(search_type="similarity", search_kwargs={"k": 6})\<close>
\<close>

record 'vs retriever =
  vectorstore :: 'vs
  search_type :: string
  search_kwargs_k :: nat

definition as_retriever :: "'vs \<Rightarrow> string \<Rightarrow> nat \<Rightarrow> 'vs retriever" where
  "as_retriever vector_store st k =
     \<lparr>vectorstore = vector_store, search_type = st, search_kwargs_k = k\<rparr>"

definition retriever_invoke ::
  "('w, 'vs) collaborators \<Rightarrow> 'vs retriever \<Rightarrow> string \<Rightarrow> ('w, document list) run" where
  "retriever_invoke cs r query =
     retrieve cs (vectorstore r) (search_type r) (search_kwargs_k r) query"

subsection \<open>Formatting documents\<close>

text \<open>
  \<^verbatim>\<open>
  def format_docs(docs):
      return "\n\n".join(doc.page_content for doc in docs)
  \<close>
  \<^verbatim>\<open>str.join\<close> copies the items in order into the result and puts the separator before every
  item but the first; \<open>i\<close> counts the items copied so far.
\<close>

fun join_loop :: "string \<Rightarrow> nat \<Rightarrow> string \<Rightarrow> string list \<Rightarrow> string" where
  "join_loop sep i res [] = res"
| "join_loop sep i res (item # items) =
     join_loop sep (Suc i) ((if i \<noteq> 0 then res @ sep else res) @ item) items"

definition str_join :: "string \<Rightarrow> string list \<Rightarrow> string" where
  "str_join sep items = join_loop sep 0 [] items"

definition format_docs :: "document list \<Rightarrow> string" where
  "format_docs docs = str_join ''\<newline>\<newline>'' (map page_content docs)"

text \<open>
  What the description of \<^verbatim>\<open>format_docs\<close> says, for comparison: the texts in list order with
  the separator between neighbours.
\<close>

fun separated_concat :: "string \<Rightarrow> string list \<Rightarrow> string" where
  "separated_concat sep [] = []"
| "separated_concat sep [x] = x"
| "separated_concat sep (x # y # ys) = x @ sep @ separated_concat sep (y # ys)"

subsection \<open>Prompt templates\<close>

text \<open>
  \<^verbatim>\<open>PromptTemplate.from_template(template)\<close> and the prompt pulled from the hub are filled in
  with Python's brace formatting: \<^verbatim>\<open>{name}\<close> is replaced by the value given for \<^verbatim>\<open>name\<close>
  (which is not scanned again), \<^verbatim>\<open>{{\<close> and \<^verbatim>\<open>}}\<close> stand for one brace, a name with no value
  raises \<^verbatim>\<open>KeyError\<close>, and an unmatched brace raises \<^verbatim>\<open>ValueError\<close>. The second argument is
  \<open>None\<close> outside a field and \<open>Some name\<close> inside one, \<open>name\<close> being the part read so far.
  This is the formatting of plain named fields, which is all that the notebook's two
  templates contain. Conversions, format specifications, attribute and index access and
  positional fields (\<^verbatim>\<open>{x!r}\<close>, \<^verbatim>\<open>{x:>8}\<close>, \<^verbatim>\<open>{x.y}\<close>, \<^verbatim>\<open>{x[0]}\<close>, \<^verbatim>\<open>{}\<close>) are not modelled: such a
  field is read as a name, for which no value is given. The properties below that go through
  a filled-in prompt are stated for the two templates of the notebook.
\<close>

fun prepend :: "string \<Rightarrow> error + string \<Rightarrow> error + string" where
  "prepend s (Inl e) = Inl e"
| "prepend s (Inr t) = Inr (s @ t)"

fun vformat :: "(string \<rightharpoonup> string) \<Rightarrow> string option \<Rightarrow> string \<Rightarrow> error + string" where
  "vformat kwargs None [] = Inr []"
| "vformat kwargs (Some name) [] = Inl (ValueError ''expected '}' before end of string'')"
| "vformat kwargs None (c # cs) =
     (if c = CHR ''{'' then
        (case cs of
           [] \<Rightarrow> Inl (ValueError ''Single '{' encountered in format string'')
         | c' # cs' \<Rightarrow>
             if c' = CHR ''{'' then prepend ''{'' (vformat kwargs None cs')
             else vformat kwargs (Some []) cs)
      else if c = CHR ''}'' then
        (case cs of
           [] \<Rightarrow> Inl (ValueError ''Single '}' encountered in format string'')
         | c' # cs' \<Rightarrow>
             if c' = CHR ''}'' then prepend ''}'' (vformat kwargs None cs')
             else Inl (ValueError ''Single '}' encountered in format string''))
      else prepend [c] (vformat kwargs None cs))"
| "vformat kwargs (Some name) (c # cs) =
     (if c = CHR ''}'' then
        (case kwargs name of
           None \<Rightarrow> Inl (KeyError name)
         | Some v \<Rightarrow> prepend v (vformat kwargs None cs))
      else if c = CHR ''{'' then Inl (ValueError ''unexpected '{' in field name'')
      else vformat kwargs (Some (name @ [c])) cs)"

text \<open>
  \<^verbatim>\<open>
  template = """Use the following pieces of context to answer the question at the end.
  If you don't know the answer, just say that you don't know, don't try to make up an answer.
  Use three sentences maximum and keep the answer as concise as possible.
  Always say "thanks for asking!" at the end of the answer.

  {context}

  Question: {question}

  Helpful Answer:"""
  \<close>
\<close>

definition template :: string where
  "template =
     ''Use the following pieces of context to answer the question at the end.\<newline>'' @
     ''If you don't know the answer, just say that you don't know, don't try to make up an answer.\<newline>'' @
     ''Use three sentences maximum and keep the answer as concise as possible.\<newline>'' @
     ''Always say \"thanks for asking!\" at the end of the answer.\<newline>'' @
     ''\<newline>'' @
     ''{context}\<newline>'' @
     ''\<newline>'' @
     ''Question: {question}\<newline>'' @
     ''\<newline>'' @
     ''Helpful Answer:''"

text \<open>
  The template of \<^verbatim>\<open>rlm/rag-prompt\<close> as the notebook prints it after \<^verbatim>\<open>hub.pull\<close>. The hub is
  outside the program, so the chains below take the pulled template as an argument; this
  constant is one value it can have.
\<close>

definition rlm_rag_prompt :: string where
  "rlm_rag_prompt =
     ''You are an assistant for question-answering tasks. '' @
     ''Use the following pieces of retrieved context to answer the question. '' @
     ''If you don't know the answer, just say that you don't know. '' @
     ''Use three sentences maximum and keep the answer concise.\<newline>'' @
     ''Question: {question} \<newline>'' @
     ''Context: {context} \<newline>'' @
     ''Answer:''"

subsection \<open>LCEL\<close>

text \<open>
  A runnable takes an input and runs. \<open>pipe\<close> is the operator \<^verbatim>\<open>|\<close>; a dictionary of runnables
  is a \<^verbatim>\<open>RunnableParallel\<close>, which gives every entry the same input and returns the dictionary
  of the results; a plain function is a \<^verbatim>\<open>RunnableLambda\<close>; \<^verbatim>\<open>RunnablePassthrough()\<close> returns
  its input.
\<close>

type_synonym ('w, 'a, 'b) runnable = "'a \<Rightarrow> ('w, 'b) run"

definition pipe :: "('w, 'a, 'b) runnable \<Rightarrow> ('w, 'b, 'c) runnable \<Rightarrow> ('w, 'a, 'c) runnable" where
  "pipe first second = (\<lambda>x. and_then (first x) second)"

definition runnable_lambda :: "('a \<Rightarrow> 'b) \<Rightarrow> ('w, 'a, 'b) runnable" where
  "runnable_lambda f = (\<lambda>x. succeed (f x))"

definition runnable_passthrough :: "('w, 'a, 'a) runnable" where
  "runnable_passthrough = (\<lambda>x. succeed x)"

definition runnable_parallel ::
  "string \<Rightarrow> ('w, 'a, 'b) runnable \<Rightarrow> string \<Rightarrow> ('w, 'a, 'b) runnable \<Rightarrow>
   ('w, 'a, (string \<times> 'b) list) runnable" where
  "runnable_parallel k1 r1 k2 r2 =
     (\<lambda>x. and_then (r1 x) (\<lambda>v1. and_then (r2 x) (\<lambda>v2. succeed [(k1, v1), (k2, v2)])))"

text \<open>Invoking a prompt template on a dictionary of inputs gives the filled-in text.\<close>

definition prompt_invoke :: "string \<Rightarrow> ('w, (string \<times> string) list, string) runnable" where
  "prompt_invoke tmpl =
     (\<lambda>inputs. case vformat (map_of inputs) None tmpl of
                  Inl e \<Rightarrow> raise e
                | Inr text \<Rightarrow> succeed text)"

text \<open>\<^verbatim>\<open>llm = ChatTongyi(model="qwen-max")\<close>\<close>

definition llm :: "('w, 'vs) collaborators \<Rightarrow> ('w, string, string) runnable" where
  "llm cs = chat_model cs ''qwen-max''"

text \<open>\<^verbatim>\<open>StrOutputParser()\<close> returns the content of the reply as it is.\<close>

definition str_output_parser :: "('w, string, string) runnable" where
  "str_output_parser = (\<lambda>content. succeed content)"

text \<open>
  \<^verbatim>\<open>
  rag_chain = (
      {"context": retriever | format_docs, "question": RunnablePassthrough()}
      | prompt
      | llm
      | StrOutputParser()
  )
  \<close>
  The notebook reads this chain with \<^verbatim>\<open>stream\<close>, which hands over the reply piece by piece
  as it arrives; the model takes the reply as a whole.
\<close>

definition rag_chain ::
  "('w, 'vs) collaborators \<Rightarrow> 'vs retriever \<Rightarrow> string \<Rightarrow> ('w, string, string) runnable" where
  "rag_chain cs retriever prompt =
     pipe (pipe (pipe
       (runnable_parallel
          ''context'' (pipe (retriever_invoke cs retriever) (runnable_lambda format_docs))
          ''question'' runnable_passthrough)
       (prompt_invoke prompt))
       (llm cs))
       str_output_parser"

text \<open>
  \<^verbatim>\<open>
  custom_rag_prompt = PromptTemplate.from_template(template)
  custom_rag_chain = (
      {"context": retriever | format_docs, "question": RunnablePassthrough()}
      | custom_rag_prompt
      | llm
      | StrOutputParser()
  )
  \<close>
\<close>

definition custom_rag_prompt :: "('w, (string \<times> string) list, string) runnable" where
  "custom_rag_prompt = prompt_invoke template"

definition custom_rag_chain ::
  "('w, 'vs) collaborators \<Rightarrow> 'vs retriever \<Rightarrow> ('w, string, string) runnable" where
  "custom_rag_chain cs retriever =
     pipe (pipe (pipe
       (runnable_parallel
          ''context'' (pipe (retriever_invoke cs retriever) (runnable_lambda format_docs))
          ''question'' runnable_passthrough)
       custom_rag_prompt)
       (llm cs))
       str_output_parser"

subsection \<open>The notebook, top to bottom\<close>










subsection \<open>Notions the properties are stated with\<close>

text \<open>The sub-chain \<^verbatim>\<open>retriever | format_docs\<close> that both chains use for \<^verbatim>\<open>"context"\<close>.\<close>

definition context_chain ::
  "('w, 'vs) collaborators \<Rightarrow> 'vs retriever \<Rightarrow> ('w, string, string) runnable" where
  "context_chain cs retriever = pipe (retriever_invoke cs retriever) (runnable_lambda format_docs)"

text \<open>
  The index is deterministic when what a search returns (documents or error) depends on the
  outside world only through the index state \<open>ix w\<close>.
\<close>

definition deterministic_index :: "('w, 'vs) collaborators \<Rightarrow> ('w \<Rightarrow> 'ix) \<Rightarrow> bool" where
  "deterministic_index cs ix \<longleftrightarrow>
     (\<forall>vs st k query w w'.
        ix w = ix w' \<longrightarrow> fst (retrieve cs vs st k query w) = fst (retrieve cs vs st k query w'))"

text \<open>
  The closing phrase and the line of \<^verbatim>\<open>template\<close> that asks for it. The model complies when
  every reply to a prompt containing that line ends with the phrase.
\<close>

definition closing_phrase :: string where
  "closing_phrase = ''thanks for asking!''"

definition closing_instruction :: string where
  "closing_instruction = ''Always say \"'' @ closing_phrase @ ''\" at the end of the answer.''"

definition model_complies :: "('w, 'vs) collaborators \<Rightarrow> bool" where
  "model_complies cs \<longleftrightarrow>
     (\<forall>ptext w reply w'.
        sublist closing_instruction ptext \<longrightarrow> llm cs ptext w = (Inr reply, w') \<longrightarrow>
        suffix closing_phrase reply)"




subsection \<open>Stand-ins for the outside services\<close>

text \<open>
  Concrete services to run the model on: the world is the stored collection and the number
  of remote calls made so far. The loader returns one short page per path, the splitter keeps
  a page whole, the store appends, a search returns the first \<open>k\<close> stored documents, the hub
  returns the printed template, the model's constructor finds its credential and the model
  always gives the same reply.
\<close>

type_synonym stub_world = "document list \<times> nat"

definition stub_page :: "string \<Rightarrow> document" where
  "stub_page path = \<lparr>page_content = ''Why We Think'', metadata = [(''source'', MStr path)]\<rparr>"

definition stub_services :: "(stub_world, unit) collaborators" where
  "stub_services =
     \<lparr>loader_load = (\<lambda>paths classes (ix, n). (Inr (map stub_page paths), (ix, Suc n))),
      split_documents = (\<lambda>chunk_size chunk_overlap add_start_index docs (ix, n).
        (Inr docs, (ix, n))),
      from_documents = (\<lambda>docs embedding_model (ix, n). (Inr (), (ix @ docs, Suc n))),
      retrieve = (\<lambda>vs st k query (ix, n). (Inr (take k ix), (ix, Suc n))),
      hub_pull = (\<lambda>name (ix, n). (Inr rlm_rag_prompt, (ix, Suc n))),
      chat_init = (\<lambda>model (ix, n). (Inr (), (ix, Suc n))),
      chat_model = (\<lambda>model ptext (ix, n).
        (Inr ''I don't know. thanks for asking!'', (ix, Suc n)))\<rparr>"



section \<open>Properties\<close>

subsection \<open>Formatting the retrieved documents\<close>

lemma separated_concat_Cons:
  "separated_concat sep (x # xs) =
     x @ (if xs = [] then [] else sep @ separated_concat sep xs)"
  by (cases xs) simp_all

lemma join_loop_acc:
  "join_loop sep (Suc i) res items =
     res @ (if items = [] then [] else sep @ separated_concat sep items)"
proof (induction items arbitrary: i res)
  case Nil
  show ?case by simp
next
  case (Cons x xs)
  show ?case by (simp add: Cons.IH separated_concat_Cons)
qed

lemma str_join_eq: "str_join sep items = separated_concat sep items"
proof (cases items)
  case Nil
  then show ?thesis by (simp add: str_join_def)
next
  case (Cons x xs)
  then show ?thesis by (simp add: str_join_def join_loop_acc separated_concat_Cons)
qed

text \<open>
  C9. For every list of documents, \<^verbatim>\<open>format_docs\<close> returns the texts of the documents in list
  order with the two characters newline, newline between neighbours; the empty list gives
  the empty string and a list of one document gives that document's text unchanged.
\<close>

theorem format_docs_joins_page_contents:
  "format_docs docs = separated_concat [CHR 0x0A, CHR 0x0A] (map page_content docs)
   \<and> format_docs [] = []
   \<and> format_docs [d] = page_content d"
  by (simp add: format_docs_def str_join_eq)

subsection \<open>Sequencing and the shape of the chains\<close>

lemma and_then_succeed: "and_then m succeed = m"
  by (rule ext) (simp add: and_then_def succeed_def split: prod.split sum.split)

lemma succeed_and_then: "and_then (succeed a) f = f a"
  by (rule ext) (simp add: and_then_def succeed_def)

lemma and_then_assoc: "and_then (and_then m f) g = and_then m (\<lambda>a. and_then (f a) g)"
  by (rule ext) (simp add: and_then_def split: prod.split sum.split)

lemma chain_from_context:
  "pipe (pipe (pipe
       (runnable_parallel
          ''context'' (pipe (retriever_invoke cs r) (runnable_lambda format_docs))
          ''question'' runnable_passthrough)
       p) l) s question =
   and_then (context_chain cs r question)
     (\<lambda>context. pipe (pipe p l) s [(''context'', context), (''question'', question)])"
  by (simp add: pipe_def runnable_parallel_def runnable_passthrough_def context_chain_def
      and_then_assoc succeed_and_then)

text \<open>
  Filling in \<^verbatim>\<open>template\<close> cannot fail when both inputs are given, and the line asking for the
  closing phrase is part of the text the model receives.
\<close>

lemma template_filled:
  "vformat (map_of [(''context'', ctx), (''question'', q)]) None template =
     Inr ((''Use the following pieces of context to answer the question at the end.\<newline>'' @
     ''If you don't know the answer, just say that you don't know, don't try to make up an answer.\<newline>'' @
     ''Use three sentences maximum and keep the answer as concise as possible.\<newline>'') @
     closing_instruction @
     ''\<newline>\<newline>'' @ ctx @ ''\<newline>\<newline>Question: '' @ q @ ''\<newline>\<newline>Helpful Answer:'')"
  by (simp add: template_def closing_instruction_def closing_phrase_def)

lemma custom_prompt_succeeds:
  "\<exists>text. prompt_invoke template [(''context'', ctx), (''question'', q)] =
     succeed text \<and> sublist closing_instruction text"
proof -
  obtain pre post where
    filled: "vformat (map_of [(''context'', ctx), (''question'', q)]) None template =
               Inr (pre @ closing_instruction @ post)"
    using template_filled by blast
  have "prompt_invoke template [(''context'', ctx), (''question'', q)] =
          succeed (pre @ closing_instruction @ post)"
    unfolding prompt_invoke_def filled by simp
  then show ?thesis by (metis sublist_appendI)
qed


lemma custom_rag_chain_eq:
  "custom_rag_chain cs r question =
     and_then (context_chain cs r question)
       (\<lambda>context. and_then
          (prompt_invoke template [(''context'', context), (''question'', question)]) (llm cs))"
  by (simp add: custom_rag_chain_def custom_rag_prompt_def pipe_def runnable_parallel_def
      runnable_passthrough_def context_chain_def str_output_parser_def and_then_assoc
      succeed_and_then and_then_succeed)

lemma custom_rag_chain_answer:
  assumes "custom_rag_chain cs r question w = (Inr answer, w')"
  shows "\<exists>ptext w1. sublist closing_instruction ptext \<and> llm cs ptext w1 = (Inr answer, w')"
proof -
  obtain res w1 where ctx: "context_chain cs r question w = (res, w1)"
    by (cases "context_chain cs r question w")
  show ?thesis
  proof (cases res)
    case (Inl e)
    with ctx have "custom_rag_chain cs r question w = (Inl e, w1)"
      unfolding custom_rag_chain_eq by (simp add: and_then_def)
    with assms show ?thesis by simp
  next
    case (Inr c)
    obtain ptext where
      p: "prompt_invoke template [(''context'', c), (''question'', question)] =
            (succeed ptext :: ('a, string) run)"
      and sub: "sublist closing_instruction ptext"
      using custom_prompt_succeeds by blast
    from ctx Inr have c: "context_chain cs r question w = (Inr c, w1)" by simp
    have "custom_rag_chain cs r question w = llm cs ptext w1"
      unfolding custom_rag_chain_eq by (simp add: and_then_def c p succeed_def)
    with assms have "llm cs ptext w1 = (Inr answer, w')" by simp
    with sub show ?thesis by blast
  qed
qed

subsection \<open>The stand-in services\<close>

lemma stub_deterministic: "deterministic_index stub_services fst"
  by (simp add: deterministic_index_def stub_services_def split: prod.split)

lemma stub_complies: "model_complies stub_services"
  by (simp add: model_complies_def llm_def stub_services_def closing_phrase_def
      suffix_to_prefix split: prod.split)

lemma deterministic_indexD:
  "deterministic_index cs ix \<Longrightarrow> ix w = ix w' \<Longrightarrow>
   fst (retrieve cs vs st k query w) = fst (retrieve cs vs st k query w')"
  unfolding deterministic_index_def by blast

subsection \<open>The two chains\<close>

text \<open>
  C10. \<^verbatim>\<open>rag_chain\<close> and \<^verbatim>\<open>custom_rag_chain\<close> are the same context-building sub-chain (the
  retriever composed with \<^verbatim>\<open>format_docs\<close>) followed by the same steps, which differ only in the
  prompt template that the context and the question are put into. Run against the same
  index state, the sub-chain gives both chains the same context text (the index being
  deterministic when the rest of the outside world differs).
\<close>

theorem chains_share_context:
  "rag_chain cs r prompt question =
     and_then (context_chain cs r question)
       (\<lambda>context. pipe (pipe (prompt_invoke prompt) (llm cs)) str_output_parser
                     [(''context'', context), (''question'', question)])
   \<and> custom_rag_chain cs r question =
     and_then (context_chain cs r question)
       (\<lambda>context. pipe (pipe (prompt_invoke template) (llm cs)) str_output_parser
                     [(''context'', context), (''question'', question)])
   \<and> (deterministic_index cs ix \<longrightarrow> ix w1 = ix w2 \<longrightarrow>
        fst (context_chain cs r question w1) = fst (context_chain cs r question w2))"
proof (intro conjI impI)
  show "rag_chain cs r prompt question =
     and_then (context_chain cs r question)
       (\<lambda>context. pipe (pipe (prompt_invoke prompt) (llm cs)) str_output_parser
                     [(''context'', context), (''question'', question)])"
    unfolding rag_chain_def by (rule chain_from_context)
  show "custom_rag_chain cs r question =
     and_then (context_chain cs r question)
       (\<lambda>context. pipe (pipe (prompt_invoke template) (llm cs)) str_output_parser
                     [(''context'', context), (''question'', question)])"
    unfolding custom_rag_chain_def custom_rag_prompt_def by (rule chain_from_context)
next
  assume d: "deterministic_index cs ix" and i: "ix w1 = ix w2"
  then have eq: "fst (retriever_invoke cs r question w1) = fst (retriever_invoke cs r question w2)"
    unfolding retriever_invoke_def by (rule deterministic_indexD)
  obtain a u where r1: "retriever_invoke cs r question w1 = (a, u)"
    by (cases "retriever_invoke cs r question w1")
  obtain b v where r2: "retriever_invoke cs r question w2 = (b, v)"
    by (cases "retriever_invoke cs r question w2")
  from eq r1 r2 have "a = b" by simp
  with r1 r2 show "fst (context_chain cs r question w1) = fst (context_chain cs r question w2)"
    by (cases b)
       (simp_all add: context_chain_def pipe_def and_then_def runnable_lambda_def succeed_def)
qed

theorem chains_share_context_witness:
  "deterministic_index stub_services fst
   \<and> fst ([stub_page ''a''], 0::nat) = fst ([stub_page ''a''], 3::nat)
   \<and> fst (context_chain stub_services (as_retriever () ''similarity'' 6) ''Why?''
            ([stub_page ''a''], 0)) =
     fst (context_chain stub_services (as_retriever () ''similarity'' 6) ''Why?''
            ([stub_page ''a''], 3))
   \<and> fst (context_chain stub_services (as_retriever () ''similarity'' 6) ''Why?''
            ([stub_page ''a''], 0)) = Inr ''Why We Think''"
proof -
  let ?r = "as_retriever () ''similarity'' 6"
  have d: "deterministic_index stub_services (fst :: stub_world \<Rightarrow> document list)"
    by (rule stub_deterministic)
  have i: "fst ([stub_page ''a''], 0::nat) = fst ([stub_page ''a''], 3::nat)"
    by simp
  have v: "fst (context_chain stub_services ?r ''Why?'' ([stub_page ''a''], 0)) =
           Inr ''Why We Think''"
    by (simp add: context_chain_def pipe_def and_then_def retriever_invoke_def as_retriever_def
        stub_services_def runnable_lambda_def succeed_def format_docs_def str_join_def
        stub_page_def)
  note share = chains_share_context [of stub_services ?r rlm_rag_prompt "''Why?''"
      fst "([stub_page ''a''], 0)" "([stub_page ''a''], 3)"]
  have eq: "fst (context_chain stub_services ?r ''Why?'' ([stub_page ''a''], 0)) =
            fst (context_chain stub_services ?r ''Why?'' ([stub_page ''a''], 3))"
    using d i by (rule share [THEN conjunct2, THEN conjunct2, rule_format])
  show ?thesis
    by (intro conjI d i eq v)
qed

text \<open>
  C7. With the custom template, which tells the model to always say "thanks for asking!" at
  the end of the answer, every answer of \<^verbatim>\<open>custom_rag_chain\<close> ends with that phrase, provided the
  model complies with the instruction.
\<close>

theorem closing_phrase_ends_answer:
  assumes "model_complies cs"
    and "custom_rag_chain cs r question w = (Inr answer, w')"
  shows "suffix ''thanks for asking!'' answer"
proof -
  from custom_rag_chain_answer [OF assms(2)] obtain ptext w1 where
    sub: "sublist closing_instruction ptext" and reply: "llm cs ptext w1 = (Inr answer, w')"
    by auto
  from assms(1) have "sublist closing_instruction ptext \<longrightarrow>
      llm cs ptext w1 = (Inr answer, w') \<longrightarrow> suffix closing_phrase answer"
    unfolding model_complies_def by (elim allE)
  with sub reply have "suffix closing_phrase answer" by simp
  then show ?thesis by (simp add: closing_phrase_def)
qed

theorem closing_phrase_ends_answer_witness:
  "model_complies stub_services
   \<and> custom_rag_chain stub_services (as_retriever () ''similarity'' 6) ''Why?'' ([], 0) =
       (Inr ''I don't know. thanks for asking!'', ([], 2))
   \<and> suffix ''thanks for asking!'' ''I don't know. thanks for asking!''"
proof -
  have c: "model_complies stub_services"
    by (rule stub_complies)
  have r: "custom_rag_chain stub_services (as_retriever () ''similarity'' 6) ''Why?'' ([], 0) =
       (Inr ''I don't know. thanks for asking!'', ([], 2))"
    by (simp add: custom_rag_chain_eq context_chain_def pipe_def and_then_def
        retriever_invoke_def as_retriever_def stub_services_def runnable_lambda_def
        succeed_def prompt_invoke_def template_def llm_def)
  have "suffix ''thanks for asking!'' ''I don't know. thanks for asking!''"
    using c r by (rule closing_phrase_ends_answer)
  with c r show ?thesis by (intro conjI)
qed

subsection \<open>The chains on the notebook's templates\<close>







subsection \<open>The answer\<close>




subsection \<open>Failures\<close>




end
